theory Spec2Isabelle
  imports Main "HOL-Library.Sublist" "HOL-Library.Word"
begin

section \<open>Python text primitives\<close>

text \<open>
  A Python \<open>str\<close> is modelled as a \<open>string\<close>; every \<open>char\<close> stands for one code
  point below 256, so \<open>length\<close> counts code points as Python's \<open>len\<close> does.  The
  content of a file is a list of bytes.  \<open>pat in s\<close> on strings is \<open>sublist pat s\<close>.
\<close>

type_synonym byte = "8 word"

definition nl :: string where
  "nl = [CHR 0x0A]"

definition dq :: string where
  "dq = [CHR 0x22]"

text \<open>\<open>str.isspace\<close> on the code points below 256.\<close>

definition py_isspace :: "char \<Rightarrow> bool" where
  "py_isspace c =
     (let n = (of_char c :: nat)
      in (9 \<le> n \<and> n \<le> 13) \<or> (28 \<le> n \<and> n \<le> 32) \<or> n = 133 \<or> n = 160)"

definition strip :: "string \<Rightarrow> string" where
  "strip s = rev (dropWhile py_isspace (rev (dropWhile py_isspace s)))"

text \<open>\<open>str.lower\<close> on the code points below 256.\<close>

definition lower_char :: "char \<Rightarrow> char" where
  "lower_char c =
     (let n = (of_char c :: nat)
      in if (65 \<le> n \<and> n \<le> 90) \<or> (192 \<le> n \<and> n \<le> 222 \<and> n \<noteq> 215)
         then char_of (n + 32) else c)"

definition lower :: "string \<Rightarrow> string" where
  "lower s = map lower_char s"

text \<open>\<open>s.split(sep)\<close> for a separator of one character.\<close>

fun split :: "char \<Rightarrow> string \<Rightarrow> string list" where
  "split sep [] = [[]]"
| "split sep (c # cs) =
     (if c = sep then [] # split sep cs
      else (case split sep cs of
              [] \<Rightarrow> [[c]]
            | w # ws \<Rightarrow> (c # w) # ws))"

text \<open>\<open>s.replace(old, new)\<close> for \<open>old\<close> and \<open>new\<close> of one character each.\<close>

definition replace :: "char \<Rightarrow> char \<Rightarrow> string \<Rightarrow> string" where
  "replace old new s = map (\<lambda>c. if c = old then new else c) s"

text \<open>\<open>sep.join(xs)\<close>.\<close>

fun join :: "string \<Rightarrow> string list \<Rightarrow> string" where
  "join sep [] = []"
| "join sep [x] = x"
| "join sep (x # y # ys) = x @ sep @ join sep (y # ys)"

text \<open>\<open>s.endswith(suffix)\<close>.\<close>

text \<open>A template of several lines, each one ended by a newline.\<close>

definition text_of_lines :: "string list \<Rightarrow> string" where
  "text_of_lines ls = concat (map (\<lambda>l. l @ nl) ls)"

text \<open>\<open>d.get(key, default)\<close>, the entry under a key being an \<open>option\<close>.\<close>

definition get :: "'a option \<Rightarrow> 'a \<Rightarrow> 'a" where
  "get entry fallback = (case entry of None \<Rightarrow> fallback | Some v \<Rightarrow> v)"

definition endswith :: "string \<Rightarrow> string \<Rightarrow> bool" where
  "endswith s suf =
     (length suf \<le> length s \<and> drop (length s - length suf) s = suf)"

text \<open>\<open>str(n)\<close> for a non-negative integer.\<close>

definition digit_char :: "nat \<Rightarrow> char" where
  "digit_char d = ''0123456789'' ! d"

fun str_of_nat :: "nat \<Rightarrow> string" where
  "str_of_nat n =
     (if n < 10 then [digit_char n]
      else str_of_nat (n div 10) @ [digit_char (n mod 10)])"

section \<open>Indicator extraction\<close>

text \<open>
  The loop of \<open>_extract_indicators_from_content\<close> and of \<open>_find_potential_indicators\<close>:
  the list \<open>indicators\<close> is the accumulator, one pattern is tried per iteration.
\<close>

fun scan_patterns :: "(string \<times> string) list \<Rightarrow> string \<Rightarrow> string list \<Rightarrow> string list" where
  "scan_patterns [] content indicators = indicators"
| "scan_patterns ((pattern, indicator_type) # rest) content indicators =
     scan_patterns rest content
       (if sublist pattern (lower content)
        then indicators @ [indicator_type @ '': '' @ pattern]
        else indicators)"

definition extract_patterns :: "(string \<times> string) list" where
  "extract_patterns =
     [(''http://'', ''URL''),
      (''https://'', ''URL''),
      (''.exe'', ''Executable''),
      (''.dll'', ''Library''),
      (''malware'', ''Malware reference''),
      (''virus'', ''Virus reference''),
      (''trojan'', ''Trojan reference''),
      (''backdoor'', ''Backdoor reference''),
      (''adware'', ''Adware reference''),
      (''spyware'', ''Spyware reference'')]"

definition extract_indicators_from_content :: "string \<Rightarrow> string list" where
  "extract_indicators_from_content content =
     take 5 (scan_patterns extract_patterns content [])"

section \<open>The strings section of a pattern rule\<close>

text \<open>
  The loop over \<open>enumerate(indicators[:3])\<close>: \<open>i\<close> is the running index, \<open>strings\<close>
  the list being appended to.  \<open>split\<close> never returns the empty list, so \<open>[-1]\<close> is
  its last element.
\<close>

definition indicator_string :: "nat \<Rightarrow> string \<Rightarrow> string" where
  "indicator_string i indicator =
     (let indicator_text = strip (last (split CHR '':'' indicator))
      in ''        $indicator_'' @ str_of_nat (i + 1) @ '' = '' @ dq
           @ indicator_text @ dq @ '' nocase'')"

fun add_indicator_strings :: "nat \<Rightarrow> string list \<Rightarrow> string list \<Rightarrow> string list" where
  "add_indicator_strings i [] strings = strings"
| "add_indicator_strings i (indicator # rest) strings =
     add_indicator_strings (Suc i) rest (strings @ [indicator_string i indicator])"

definition strings_list :: "string \<Rightarrow> string \<Rightarrow> string list \<Rightarrow> string list" where
  "strings_list filename fhash indicators =
     add_indicator_strings 0 (take 3 indicators)
       [''        $file_name = '' @ dq @ filename @ dq @ '' wide ascii'',
        ''        $hash = '' @ dq @ fhash @ dq]"

definition create_strings_section :: "string \<Rightarrow> string \<Rightarrow> string list \<Rightarrow> string" where
  "create_strings_section filename fhash indicators =
     join nl (strings_list filename fhash indicators)"

section \<open>Library functions and the file system\<close>

text \<open>
  The functions of the Python library that the program calls and that are not its own
  code are parameters: the MD5 hex digest of a byte string (\<open>hashlib\<close>), the UTF-8
  encoding of a \<open>str\<close> (\<open>str.encode\<close>) and the UTF-8 decoding of bytes with invalid
  bytes ignored.  \<open>str.encode\<close> raises \<open>UnicodeEncodeError\<close> for a \<open>str\<close> that holds a
  lone surrogate, which is what the listing of a directory gives for a file name that
  is no UTF-8.  Such a name has no string of its own here: it is a string that the
  encoder of the library rejects.
\<close>

datatype py_error = FileNotFoundError | PermissionError | OSError | UnicodeEncodeError

record pylib =
  md5_hexdigest :: "byte list \<Rightarrow> string"
  utf8_encode :: "string \<Rightarrow> py_error + byte list"
  utf8_decode :: "byte list \<Rightarrow> string"

text \<open>
  What a path holds: a regular file that reads back its content, a file whose reads
  deliver some bytes and then fail with an I/O error, or something that cannot be
  opened.  A path the file system does not map is missing.
\<close>

datatype file_node = Regular "byte list" | Faulty "byte list" | Unreadable

type_synonym path = string

type_synonym filesystem = "path \<rightharpoonup> file_node"

record handle =
  buf :: "byte list"
  broken :: bool

definition open_file :: "filesystem \<Rightarrow> path \<Rightarrow> py_error + handle" where
  "open_file fs p =
     (case fs p of
        None \<Rightarrow> Inl FileNotFoundError
      | Some Unreadable \<Rightarrow> Inl PermissionError
      | Some (Regular bs) \<Rightarrow> Inr \<lparr>buf = bs, broken = False\<rparr>
      | Some (Faulty bs) \<Rightarrow> Inr \<lparr>buf = bs, broken = True\<rparr>)"

text \<open>\<open>f.read(n)\<close> on a binary handle: the empty bytes object at the end of the file.\<close>

definition read :: "nat \<Rightarrow> handle \<Rightarrow> py_error + (byte list \<times> handle)" where
  "read n h =
     (if buf h = [] then (if broken h then Inl OSError else Inr ([], h))
      else Inr (take n (buf h), h\<lparr>buf := drop n (buf h)\<rparr>))"

text \<open>\<open>f.read()\<close>: everything up to the end of the file.\<close>

definition read_all :: "handle \<Rightarrow> py_error + byte list" where
  "read_all h = (if broken h then Inl OSError else Inr (buf h))"

text \<open>The newline translation of a file opened in text mode.\<close>

fun universal_newlines :: "string \<Rightarrow> string" where
  "universal_newlines [] = []"
| "universal_newlines [c] = [if c = CHR 0x0D then CHR 0x0A else c]"
| "universal_newlines (c # d # cs) =
     (if c = CHR 0x0D \<and> d = CHR 0x0A then CHR 0x0A # universal_newlines cs
      else if c = CHR 0x0D then CHR 0x0A # universal_newlines (d # cs)
      else c # universal_newlines (d # cs))"

text \<open>\<open>open(file_path, 'r', encoding='utf-8', errors='ignore')\<close> followed by \<open>f.read()\<close>.\<close>

definition read_text :: "pylib \<Rightarrow> filesystem \<Rightarrow> path \<Rightarrow> py_error + string" where
  "read_text lib fs p =
     (case open_file fs p of
        Inl e \<Rightarrow> Inl e
      | Inr h \<Rightarrow>
          (case read_all h of
             Inl e \<Rightarrow> Inl e
           | Inr bs \<Rightarrow> Inr (universal_newlines (utf8_decode lib bs))))"

section \<open>The hash of a file\<close>

text \<open>
  The state of a \<open>hashlib.md5()\<close> object is the list of the chunks it was updated
  with; its \<open>hexdigest()\<close> is the digest of their concatenation.
\<close>

type_synonym md5_state = "byte list list"

definition md5_new :: md5_state where
  "md5_new = []"

definition md5_update :: "md5_state \<Rightarrow> byte list \<Rightarrow> md5_state" where
  "md5_update st chunk = st @ [chunk]"

definition hexdigest :: "pylib \<Rightarrow> md5_state \<Rightarrow> string" where
  "hexdigest lib st = md5_hexdigest lib (concat st)"

text \<open>The loop \<open>for chunk in iter(lambda: f.read(4096), b"")\<close>.\<close>

function hash_chunks :: "handle \<Rightarrow> md5_state \<Rightarrow> py_error + md5_state" where
  "hash_chunks f hash_md5 =
     (case read 4096 f of
        Inl e \<Rightarrow> Inl e
      | Inr (chunk, f') \<Rightarrow>
          (if chunk = [] then Inr hash_md5
           else hash_chunks f' (md5_update hash_md5 chunk)))"
  by pat_completeness auto
termination
  by (relation "measure (\<lambda>(f, hash_md5). length (buf f))")
     (auto simp: read_def split: if_splits)

declare hash_chunks.simps [simp del]

definition calculate_file_hash :: "pylib \<Rightarrow> filesystem \<Rightarrow> path \<Rightarrow> string" where
  "calculate_file_hash lib fs file_path =
     (case open_file fs file_path of
        Inl e \<Rightarrow> ''hash_calculation_failed''
      | Inr f \<Rightarrow>
          (case hash_chunks f md5_new of
             Inl e \<Rightarrow> ''hash_calculation_failed''
           | Inr hash_md5 \<Rightarrow> hexdigest lib hash_md5))"

section \<open>The rule generator\<close>

text \<open>
  \<open>self.metadata\<close> of a \<open>RuleGenerator\<close>: \<open>created\<close> is the reading of the clock when
  the generator was built.
\<close>

record generator_metadata =
  author :: string
  created :: string
  version :: string
  description :: string

definition init_generator :: "string \<Rightarrow> generator_metadata" where
  "init_generator now =
     \<lparr>author = ''Fariba Mohammaditabar'',
      created = now,
      version = ''1.0'',
      description = ''Automatically generated security rules''\<rparr>"

text \<open>
  The analysis dictionary of the file processor: a key that is absent is \<open>None\<close>.  The
  generator reads \<open>file_size\<close> and \<open>file_type\<close> only; the processor stores analysis integer
  and a \<open>str\<close> there.
\<close>

record analysis =
  an_file_size :: "nat option"
  an_file_type :: "string option"
  an_has_text_patterns :: "bool option"
  an_has_binary_patterns :: "bool option"
  an_potential_indicators :: "string list option"

text \<open>The metadata dictionary: \<open>self.metadata\<close> extended by the fields of one file.\<close>

record metadata = generator_metadata +
  source_file :: string
  file_size :: nat
  file_type :: string
  analysis_date :: string
  file_hash :: string
  indicators_found :: "string list"
  status :: string

text \<open>The dictionary of rules; \<open>_save_rules\<close> looks its keys up with \<open>get\<close>.\<close>

record rules =
  yara :: "string option"
  sigma :: "string option"
  rules_metadata :: "metadata option"

definition rule_name_suffix :: "string \<Rightarrow> string" where
  "rule_name_suffix filename = replace CHR '' '' CHR ''_'' (replace CHR ''.'' CHR ''_'' filename)"

definition generate_yara_rule ::
  "generator_metadata \<Rightarrow> string \<Rightarrow> analysis \<Rightarrow> string \<Rightarrow> string list \<Rightarrow> string" where
  "generate_yara_rule self filename analysis fhash indicators =
     (let rule_name = ''Rule_'' @ rule_name_suffix filename;
          strings_section = create_strings_section filename fhash indicators
      in text_of_lines
           [''rule '' @ rule_name,
            ''{'',
            ''    meta:'',
            ''        author = '' @ dq @ author self @ dq,
            ''        date = '' @ dq @ created self @ dq,
            ''        description = '' @ dq @ ''Generated from '' @ filename @ dq,
            ''        file_type = '' @ dq @ get (an_file_type analysis) ''unknown'' @ dq,
            ''        file_size = '' @ str_of_nat (get (an_file_size analysis) 0),
            ''        md5 = '' @ dq @ fhash @ dq,
            [],
            ''    strings:'',
            strings_section,
            ''        '',
            ''    condition:'',
            ''        any of them'',
            ''}''])"

definition generate_csv_yara_rule :: "generator_metadata \<Rightarrow> string \<Rightarrow> string \<Rightarrow> string" where
  "generate_csv_yara_rule self filename fhash =
     (let rule_name = ''CSV_Rule_'' @ rule_name_suffix filename
      in text_of_lines
           [''rule '' @ rule_name,
            ''{'',
            ''    meta:'',
            ''        author = '' @ dq @ author self @ dq,
            ''        date = '' @ dq @ created self @ dq,
            ''        description = '' @ dq @ ''Basic rule for CSV file: '' @ filename @ dq,
            ''        file_type = '' @ dq @ ''text/csv'' @ dq,
            [],
            ''    strings:'',
            ''        $file_name = '' @ dq @ filename @ dq @ '' wide ascii'',
            ''        $hash = '' @ dq @ fhash @ dq,
            ''        '',
            ''    condition:'',
            ''        any of them'',
            ''}''])"

definition generate_basic_yara_rule :: "generator_metadata \<Rightarrow> string \<Rightarrow> string \<Rightarrow> string" where
  "generate_basic_yara_rule self filename fhash =
     (let rule_name = ''Basic_Rule_'' @ rule_name_suffix filename
      in text_of_lines
           [''rule '' @ rule_name,
            ''{'',
            ''    meta:'',
            ''        author = '' @ dq @ author self @ dq,
            ''        date = '' @ dq @ created self @ dq,
            ''        description = '' @ dq @ ''Basic rule for '' @ filename @ dq,
            [],
            ''    strings:'',
            ''        $file_name = '' @ dq @ filename @ dq @ '' wide ascii'',
            ''        $hash = '' @ dq @ fhash @ dq,
            ''        '',
            ''    condition:'',
            ''        any of them'',
            ''}''])"

text \<open>
  The Sigma rule: \<open>filename.encode()\<close> in its \<open>id\<close> field raises where the file name
  cannot be encoded, and the exception leaves the function.
\<close>

definition generate_sigma_rule ::
  "generator_metadata \<Rightarrow> pylib \<Rightarrow> string \<Rightarrow> analysis \<Rightarrow> string \<Rightarrow> py_error + string" where
  "generate_sigma_rule self lib filename analysis fhash =
     (case utf8_encode lib filename of
        Inl e \<Rightarrow> Inl e
      | Inr name_bytes \<Rightarrow>
          Inr (text_of_lines
                 [''title: Suspicious File - '' @ filename,
                  ''id: '' @ md5_hexdigest lib name_bytes,
                  ''status: experimental'',
                  ''description: Detects presence of '' @ filename,
                  ''author: '' @ author self,
                  ''date: '' @ created self,
                  ''logsource:'',
                  ''    category: file_event'',
                  ''detection:'',
                  ''    selection:'',
                  ''        FileName|endswith: '' @ [CHR 0x27] @ filename @ [CHR 0x27],
                  ''    condition: selection'',
                  ''falsepositives:'',
                  ''    - Unknown'',
                  ''level: medium'']))"

text \<open>\<open>now\<close> is the reading of the clock when the metadata is generated.\<close>

definition generate_metadata ::
  "generator_metadata \<Rightarrow> string \<Rightarrow> analysis \<Rightarrow> string \<Rightarrow> string list \<Rightarrow> string \<Rightarrow> metadata" where
  "generate_metadata self filename analysis fhash indicators now =
     \<lparr>author = author self,
      created = created self,
      version = version self,
      description = description self,
      source_file = filename,
      file_size = get (an_file_size analysis) 0,
      file_type = get (an_file_type analysis) ''unknown'',
      analysis_date = now,
      file_hash = fhash,
      indicators_found = indicators,
      status = ''generated''\<rparr>"

text \<open>
  The fallback: it renders the Sigma rule again, outside any \<open>try\<close>, so an exception
  of \<open>_generate_sigma_rule\<close> leaves it.
\<close>

definition generate_basic_rules ::
  "generator_metadata \<Rightarrow> pylib \<Rightarrow> string \<Rightarrow> analysis \<Rightarrow> string \<Rightarrow> string
     \<Rightarrow> py_error + rules" where
  "generate_basic_rules self lib filename analysis fhash now =
     (case generate_sigma_rule self lib filename analysis fhash of
        Inl e \<Rightarrow> Inl e
      | Inr sigma_rule \<Rightarrow>
          Inr \<lparr>yara = Some (generate_basic_yara_rule self filename fhash),
               sigma = Some sigma_rule,
               rules_metadata = Some (generate_metadata self filename analysis fhash [] now)\<rparr>)"

text \<open>
  The text branch.  Its \<open>try\<close> block reads the file, extracts the indicators and
  renders the pattern rule, the Sigma rule and the metadata, in this order; it fails
  where the file cannot be opened or read, or where the Sigma rule raises.  The
  handler of every exception returns what the fallback returns or raises what it
  raises.  What the handlers print on the console is not part of the rules and is left
  out.
\<close>

definition generate_rules_from_text ::
  "generator_metadata \<Rightarrow> pylib \<Rightarrow> string \<Rightarrow> analysis \<Rightarrow> filesystem \<Rightarrow> path \<Rightarrow> string
     \<Rightarrow> string \<Rightarrow> py_error + rules" where
  "generate_rules_from_text self lib filename analysis fs file_path fhash now =
     (case (case read_text lib fs file_path of
              Inl e \<Rightarrow> Inl e
            | Inr content \<Rightarrow>
                (let indicators = extract_indicators_from_content content
                 in case generate_sigma_rule self lib filename analysis fhash of
                      Inl e \<Rightarrow> Inl e
                    | Inr sigma_rule \<Rightarrow>
                        Inr \<lparr>yara = Some (generate_yara_rule self filename analysis fhash
                                            indicators),
                             sigma = Some sigma_rule,
                             rules_metadata =
                               Some (generate_metadata self filename analysis fhash
                                       indicators now)\<rparr>)) of
        Inl e \<Rightarrow> generate_basic_rules self lib filename analysis fhash now
      | Inr rs \<Rightarrow> Inr rs)"

text \<open>
  The CSV branch.  Its \<open>try\<close> block renders the CSV pattern rule, the Sigma rule and
  the metadata; the handler is that of the text branch.
\<close>

definition generate_rules_from_csv ::
  "generator_metadata \<Rightarrow> pylib \<Rightarrow> string \<Rightarrow> analysis \<Rightarrow> filesystem \<Rightarrow> path \<Rightarrow> string
     \<Rightarrow> string \<Rightarrow> py_error + rules" where
  "generate_rules_from_csv self lib filename analysis fs file_path fhash now =
     (case (case generate_sigma_rule self lib filename analysis fhash of
              Inl e \<Rightarrow> Inl e
            | Inr sigma_rule \<Rightarrow>
                Inr \<lparr>yara = Some (generate_csv_yara_rule self filename fhash),
                     sigma = Some sigma_rule,
                     rules_metadata =
                       Some (generate_metadata self filename analysis fhash [] now)\<rparr>) of
        Inl e \<Rightarrow> generate_basic_rules self lib filename analysis fhash now
      | Inr rs \<Rightarrow> Inr rs)"

definition generate_rules ::
  "generator_metadata \<Rightarrow> pylib \<Rightarrow> string \<Rightarrow> analysis \<Rightarrow> filesystem \<Rightarrow> path \<Rightarrow> string
     \<Rightarrow> py_error + rules" where
  "generate_rules self lib filename analysis fs file_path now =
     (let fhash = calculate_file_hash lib fs file_path
      in if endswith filename ''.csv''
         then generate_rules_from_csv self lib filename analysis fs file_path fhash now
         else generate_rules_from_text self lib filename analysis fs file_path fhash now)"

section \<open>The file processor\<close>

definition processor_patterns :: "(string \<times> string) list" where
  "processor_patterns =
     [(''http://'', ''URL''),
      (''https://'', ''URL''),
      (''.exe'', ''Executable''),
      (''.dll'', ''Library''),
      (''malware'', ''Malware reference''),
      (''virus'', ''Virus reference'')]"

definition find_potential_indicators :: "pylib \<Rightarrow> byte list \<Rightarrow> string list" where
  "find_potential_indicators lib content =
     (let text_content = utf8_decode lib content
      in scan_patterns processor_patterns text_content [])"




section \<open>The world of the orchestrator\<close>

text \<open>
  A \<open>Path\<close> object with the attributes the program reads: its text, its \<open>name\<close> and
  its \<open>stem\<close>.
\<close>

record pypath =
  path_str :: path
  path_name :: string
  path_stem :: string

text \<open>
  A log record is its level and its message; a message that ends with the text of an
  exception carries the exception.
\<close>

datatype log_entry =
  Info string
| Warning string py_error
| Error string py_error

text \<open>
  What a written file holds: the text that was written, or the JSON dump of a
  metadata dictionary (\<open>None\<close> is the empty dictionary).
\<close>

datatype file_data = Text string | JsonDump "metadata option"

text \<open>
  The state the orchestrator runs in: the listing of a directory in the order of
  \<open>glob\<close> (a missing directory has none), \<open>is_file\<close>, \<open>stat\<close> and the type detection
  of a path, the files to read, the clock with the number of readings taken so far,
  the files written so far, the paths that cannot be opened for writing, and the log.
  The output files are kept apart from the files read.
\<close>

record world =
  listing :: "path \<rightharpoonup> pypath list"
  is_file :: "path \<Rightarrow> bool"
  stat_size :: "path \<Rightarrow> py_error + nat"
  magic :: "path \<rightharpoonup> string"
  files :: filesystem
  clock :: "nat \<Rightarrow> string"
  clock_reads :: nat
  out_files :: "path \<rightharpoonup> file_data"
  write_denied :: "path \<Rightarrow> bool"
  log :: "log_entry list"

definition log_add :: "log_entry \<Rightarrow> world \<Rightarrow> world" where
  "log_add entry w = w\<lparr>log := log w @ [entry]\<rparr>"


text \<open>\<open>open(p, 'w')\<close> followed by the write of the whole content.\<close>

definition write_file :: "path \<Rightarrow> file_data \<Rightarrow> world \<Rightarrow> py_error + world" where
  "write_file p d w =
     (if write_denied w p then Inl PermissionError
      else Inr (w\<lparr>out_files := (out_files w)(p \<mapsto> d)\<rparr>))"

subsection \<open>Analysis of a file\<close>

definition empty_analysis :: analysis where
  "empty_analysis =
     \<lparr>an_file_size = None, an_file_type = None, an_has_text_patterns = None,
      an_has_binary_patterns = None, an_potential_indicators = None\<rparr>"




section \<open>The orchestrator\<close>

record asr_generator =
  input_dir :: path
  output_dir :: path
  rule_generator :: generator_metadata

definition out_path :: "asr_generator \<Rightarrow> string \<Rightarrow> path" where
  "out_path self file_name = output_dir self @ ''/'' @ file_name"

text \<open>The truth value of \<open>rules.get(key)\<close> for a key that holds a \<open>str\<close>.\<close>

definition truthy :: "string option \<Rightarrow> bool" where
  "truthy v = (case v of None \<Rightarrow> False | Some s \<Rightarrow> s \<noteq> [])"

text \<open>
  One block of \<open>_save_rules\<close> for a rule text: where the value under the key is
  truthy, it is written to the path and the write is logged.
\<close>

definition save_text :: "string \<Rightarrow> path \<Rightarrow> string option \<Rightarrow> world \<Rightarrow> py_error + world" where
  "save_text msg p v w =
     (case v of
        None \<Rightarrow> Inr w
      | Some s \<Rightarrow>
          if s = [] then Inr w
          else (case write_file p (Text s) w of
                  Inl e \<Rightarrow> Inl e
                | Inr w' \<Rightarrow> Inr (log_add (Info (msg @ p)) w')))"

text \<open>
  \<open>_save_rules\<close>: an exception leaves the function with the state reached so far.
\<close>

definition save_rules ::
  "asr_generator \<Rightarrow> rules \<Rightarrow> string \<Rightarrow> world \<Rightarrow> (py_error + unit) \<times> world" where
  "save_rules self rs base_name w =
     (let yara_path = out_path self (base_name @ ''_rules.yar'');
          sigma_path = out_path self (base_name @ ''_sigma.yml'');
          meta_path = out_path self (base_name @ ''_metadata.json'')
      in case save_text ''YARA rules saved: '' yara_path (yara rs) w of
           Inl e \<Rightarrow> (Inl e, w)
         | Inr w1 \<Rightarrow>
             (case save_text ''Sigma rules saved: '' sigma_path (sigma rs) w1 of
                Inl e \<Rightarrow> (Inl e, w1)
              | Inr w2 \<Rightarrow>
                  (case write_file meta_path (JsonDump (rules_metadata rs)) w2 of
                     Inl e \<Rightarrow> (Inl e, w2)
                   | Inr w3 \<Rightarrow>
                       (Inr (), log_add (Info (''Metadata saved: '' @ meta_path)) w3))))"




text \<open>The world with no file at all, where every path can be written.\<close>

definition empty_world :: world where
  "empty_world =
     \<lparr>listing = Map.empty,
      is_file = (\<lambda>p. False),
      stat_size = (\<lambda>p. Inl FileNotFoundError),
      magic = Map.empty,
      files = Map.empty,
      clock = (\<lambda>n. []),
      clock_reads = 0,
      out_files = Map.empty,
      write_denied = (\<lambda>p. False),
      log = []\<rparr>"


text \<open>
  The UTF-8 encoding of a \<open>str\<close> whose code points are below 256: one byte for a code
  point below 128 and two bytes for the others.
\<close>

definition utf8_bytes :: "string \<Rightarrow> byte list" where
  "utf8_bytes s =
     concat (map (\<lambda>c. let n = (of_char c :: nat)
                        in if n < 128 then [of_nat n]
                           else [of_nat (192 + n div 64), of_nat (128 + n mod 64)]) s)"

text \<open>
  A run of the orchestrator used below.  The library encodes as \<open>utf8_bytes\<close> does,
  but for the name \<open>caf?.txt\<close>: it stands for a name that holds a lone surrogate in
  the place of the question mark, as the listing gives for a name whose bytes are no
  UTF-8, and is rejected as \<open>str.encode\<close> rejects that name.  The digest and the
  decoder of the library are left open.  The input directory lists three regular
  files: the one of that name, an empty one whose pattern rule cannot be written, and
  one of two bytes.
\<close>

definition scenario_lib :: "(byte list \<Rightarrow> string) \<Rightarrow> (byte list \<Rightarrow> string) \<Rightarrow> pylib" where
  "scenario_lib md5 decode =
     \<lparr>md5_hexdigest = md5,
      utf8_encode = (\<lambda>s. if s = ''caf?.txt'' then Inl UnicodeEncodeError
                          else Inr (utf8_bytes s)),
      utf8_decode = decode\<rparr>"


definition scenario_generator :: asr_generator where
  "scenario_generator =
     \<lparr>input_dir = ''new_input_files'',
      output_dir = ''output_rules'',
      rule_generator = init_generator ''2025-01-01T10:00:00''\<rparr>"

definition scenario_world :: world where
  "scenario_world =
     empty_world
       \<lparr>listing :=
          [''new_input_files'' \<mapsto>
             [\<lparr>path_str = ''new_input_files/caf?.txt'', path_name = ''caf?.txt'',
               path_stem = ''caf?''\<rparr>,
              \<lparr>path_str = ''new_input_files/locked.txt'', path_name = ''locked.txt'',
               path_stem = ''locked''\<rparr>,
              \<lparr>path_str = ''new_input_files/sample.txt'', path_name = ''sample.txt'',
               path_stem = ''sample''\<rparr>]],
        is_file := (\<lambda>p. True),
        stat_size := (\<lambda>p. if p = ''new_input_files/sample.txt'' then Inr 2 else Inr 0),
        files :=
          [''new_input_files/caf?.txt'' \<mapsto> Regular [],
           ''new_input_files/locked.txt'' \<mapsto> Regular [],
           ''new_input_files/sample.txt'' \<mapsto> Regular [0x68, 0x69]],
        write_denied := (\<lambda>p. p = ''output_rules/locked_rules.yar'')\<rparr>"

section \<open>The converter variant\<close>

text \<open>
  \<open>\W\<close> of a \<open>str\<close> pattern: a character that is neither alphanumeric nor the
  underscore, here on the code points below 256.
\<close>

definition is_word_char :: "char \<Rightarrow> bool" where
  "is_word_char c =
     (let n = (of_char c :: nat)
      in (48 \<le> n \<and> n \<le> 57) \<or> (65 \<le> n \<and> n \<le> 90) \<or> n = 95 \<or> (97 \<le> n \<and> n \<le> 122)
         \<or> n = 170 \<or> n = 178 \<or> n = 179 \<or> n = 181 \<or> n = 185 \<or> n = 186
         \<or> (188 \<le> n \<and> n \<le> 190) \<or> (192 \<le> n \<and> n \<le> 214) \<or> (216 \<le> n \<and> n \<le> 246)
         \<or> 248 \<le> n)"

text \<open>
  \<open>re.sub(r'\W+', '_', s)\<close>: every maximal run of non-word characters becomes one
  underscore; \<open>in_run\<close> tells that the run being read has its underscore already.
\<close>

fun sub_nonword_runs :: "bool \<Rightarrow> string \<Rightarrow> string" where
  "sub_nonword_runs in_run [] = []"
| "sub_nonword_runs in_run (c # cs) =
     (if is_word_char c then c # sub_nonword_runs False cs
      else if in_run then sub_nonword_runs True cs
      else CHR ''_'' # sub_nonword_runs True cs)"

definition re_sub_nonword :: "string \<Rightarrow> string" where
  "re_sub_nonword s = sub_nonword_runs False s"

definition convert_to_yara :: "string \<Rightarrow> string \<Rightarrow> string" where
  "convert_to_yara filename content =
     (let rule_name = re_sub_nonword filename;
          snippet = concat (map (\<lambda>c. if c = CHR 0x22 then [CHR 0x5C, CHR 0x22] else [c])
                              (take 20 content));
          yara_rule = nl @ text_of_lines
                        [''rule '' @ rule_name,
                         ''{'',
                         ''    strings:'',
                         ''        $a = '' @ dq @ snippet @ dq,
                         ''    condition:'',
                         ''        $a'',
                         ''}'']
      in strip yara_rule)"

section \<open>Facts about the hash of a file\<close>

lemma chunk_count_step_gen:
  assumes "0 < k" "0 < (n::nat)"
  shows "(n + (k - 1)) div k = Suc ((n - k + (k - 1)) div k)"
proof (cases "n \<le> k")
  case True
  have e: "n + (k - 1) = (n - 1) + k" using assms by simp
  have "(n - 1 + k) div k = (n - 1) div k + 1"
    using assms(1) div_add_self2 [of k "n - 1"] by simp
  moreover have "(n - 1) div k = 0" using True assms by simp
  moreover have "(n - k + (k - 1)) div k = 0" using True assms by simp
  ultimately show ?thesis unfolding e by simp
next
  case False
  then have e: "n + (k - 1) = (n - k + (k - 1)) + k" by simp
  have "(n - k + (k - 1) + k) div k = (n - k + (k - 1)) div k + 1"
    using assms(1) div_add_self2 [of k "n - k + (k - 1)"] by simp
  then show ?thesis unfolding e by simp
qed

lemma chunks_of_nonempty_gen:
  assumes "0 < k" "bs \<noteq> []"
  shows "map (\<lambda>i. take k (drop (i * k) bs)) [0..<(length bs + (k - 1)) div k] =
     take k bs #
     map (\<lambda>i. take k (drop (i * k) (drop k bs)))
       [0..<(length (drop k bs) + (k - 1)) div k]"
proof -
  have n: "(length bs + (k - 1)) div k = Suc ((length (drop k bs) + (k - 1)) div k)"
    using chunk_count_step_gen [of k "length bs"] assms by simp
  show ?thesis
    unfolding n upt_conv_Cons [OF zero_less_Suc] map_Suc_upt [symmetric]
    by (simp add: add.commute)
qed

lemma concat_chunks_gen:
  "0 < k \<Longrightarrow>
   concat (map (\<lambda>i. take k (drop (i * k) bs)) [0..<(length bs + (k - 1)) div k]) = bs"
proof (induction "length bs" arbitrary: bs rule: less_induct)
  case less
  show ?case
  proof (cases "bs = []")
    case True
    then show ?thesis using less.prems by simp
  next
    case False
    then have "length (drop k bs) < length bs" using less.prems by simp
    then have "concat (map (\<lambda>i. take k (drop (i * k) (drop k bs)))
        [0..<(length (drop k bs) + (k - 1)) div k]) = drop k bs"
      using less.hyps less.prems by blast
    then show ?thesis
      by (simp only: chunks_of_nonempty_gen [OF less.prems False] concat.simps
          append_take_drop_id)
  qed
qed

lemma chunks_of_nonempty:
  "bs \<noteq> [] \<Longrightarrow>
   map (\<lambda>i. take 4096 (drop (i * 4096) bs)) [0..<(length bs + 4095) div 4096] =
     take 4096 bs #
     map (\<lambda>i. take 4096 (drop (i * 4096) (drop 4096 bs)))
       [0..<(length (drop 4096 bs) + 4095) div 4096]"
  using chunks_of_nonempty_gen [of 4096 bs] by simp

lemma concat_chunks:
  "concat (map (\<lambda>i. take 4096 (drop (i * 4096) bs)) [0..<(length bs + 4095) div 4096]) = bs"
  using concat_chunks_gen [of 4096 bs] by simp

lemma hash_chunks_eof:
  "buf f = [] \<Longrightarrow> hash_chunks f st = (if broken f then Inl OSError else Inr st)"
  by (simp add: hash_chunks.simps [of f st] read_def)

lemma hash_chunks_step:
  "buf f \<noteq> [] \<Longrightarrow>
   hash_chunks f st =
     hash_chunks (f\<lparr>buf := drop 4096 (buf f)\<rparr>) (md5_update st (take 4096 (buf f)))"
  by (simp add: hash_chunks.simps [of f st] read_def)

lemma hash_chunks_regular:
  "\<not> broken f \<Longrightarrow>
   hash_chunks f st =
     Inr (st @ map (\<lambda>i. take 4096 (drop (i * 4096) (buf f)))
                 [0..<(length (buf f) + 4095) div 4096])"
proof (induction "length (buf f)" arbitrary: f st rule: less_induct)
  case less
  show ?case
  proof (cases "buf f = []")
    case True
    with less.prems show ?thesis by (simp add: hash_chunks_eof)
  next
    case False
    let ?f' = "f\<lparr>buf := drop 4096 (buf f)\<rparr>"
    have "length (buf ?f') < length (buf f)" using False by simp
    moreover have "\<not> broken ?f'" using less.prems by simp
    ultimately have "hash_chunks ?f' (md5_update st (take 4096 (buf f))) =
        Inr (md5_update st (take 4096 (buf f)) @
             map (\<lambda>i. take 4096 (drop (i * 4096) (buf ?f')))
               [0..<(length (buf ?f') + 4095) div 4096])"
      using less.hyps by blast
    then have "hash_chunks f st =
        Inr (st @ take 4096 (buf f) #
             map (\<lambda>i. take 4096 (drop (i * 4096) (drop 4096 (buf f))))
               [0..<(length (drop 4096 (buf f)) + 4095) div 4096])"
      using False by (simp add: hash_chunks_step md5_update_def)
    then show ?thesis
      by (simp only: chunks_of_nonempty [OF False])
  qed
qed

lemma hash_chunks_faulty:
  "broken f \<Longrightarrow> hash_chunks f st = Inl OSError"
proof (induction "length (buf f)" arbitrary: f st rule: less_induct)
  case less
  show ?case
  proof (cases "buf f = []")
    case True
    with less.prems show ?thesis by (simp add: hash_chunks_eof)
  next
    case False
    let ?f' = "f\<lparr>buf := drop 4096 (buf f)\<rparr>"
    have "length (buf ?f') < length (buf f)" using False by simp
    moreover have "broken ?f'" using less.prems by simp
    ultimately have "hash_chunks ?f' (md5_update st (take 4096 (buf f))) = Inl OSError"
      using less.hyps by blast
    then show ?thesis using False by (simp add: hash_chunks_step)
  qed
qed

lemma calculate_file_hash_cases:
  "calculate_file_hash lib fs file_path =
     (case fs file_path of
        Some (Regular content) \<Rightarrow> md5_hexdigest lib content
      | _ \<Rightarrow> ''hash_calculation_failed'')"
proof (cases "fs file_path")
  case None
  then show ?thesis by (simp add: calculate_file_hash_def open_file_def)
next
  case (Some node)
  show ?thesis
  proof (cases node)
    case (Regular content)
    have "hash_chunks \<lparr>buf = content, broken = False\<rparr> md5_new =
        Inr (map (\<lambda>i. take 4096 (drop (i * 4096) content))
               [0..<(length content + 4095) div 4096])"
      using hash_chunks_regular [of "\<lparr>buf = content, broken = False\<rparr>" md5_new]
      by (simp add: md5_new_def)
    then show ?thesis using Some Regular
      by (simp add: calculate_file_hash_def open_file_def hexdigest_def concat_chunks)
  next
    case (Faulty content)
    then show ?thesis using Some
      by (simp add: calculate_file_hash_def open_file_def hash_chunks_faulty)
  next
    case Unreadable
    then show ?thesis using Some by (simp add: calculate_file_hash_def open_file_def)
  qed
qed

text \<open>
  C4.  The hash of a file: a regular file is read in chunks of 4096 bytes, the last one
  possibly shorter, each fed to the digest in turn, and the result is the MD5 hex
  digest of the whole content; a path that is missing or cannot be opened, and a file
  whose reads fail, give the string \<open>hash_calculation_failed\<close>.  The function returns a
  string on every file system and path: no exception leaves it.
\<close>

theorem file_hash_streamed:
  "calculate_file_hash lib fs file_path =
     (case fs file_path of
        Some (Regular content) \<Rightarrow> md5_hexdigest lib content
      | _ \<Rightarrow> ''hash_calculation_failed'')
   \<and> hash_chunks \<lparr>buf = bytes, broken = False\<rparr> md5_new =
       Inr (map (\<lambda>i. take 4096 (drop (i * 4096) bytes))
              [0..<(length bytes + 4095) div 4096])
   \<and> hexdigest lib (map (\<lambda>i. take 4096 (drop (i * 4096) bytes))
                       [0..<(length bytes + 4095) div 4096]) =
       md5_hexdigest lib bytes
   \<and> hash_chunks \<lparr>buf = bytes, broken = True\<rparr> md5_new = Inl OSError"
proof -
  have "hash_chunks \<lparr>buf = bytes, broken = False\<rparr> md5_new =
       Inr (map (\<lambda>i. take 4096 (drop (i * 4096) bytes))
              [0..<(length bytes + 4095) div 4096])"
    using hash_chunks_regular [of "\<lparr>buf = bytes, broken = False\<rparr>" md5_new]
    by (simp add: md5_new_def)
  moreover have "hash_chunks \<lparr>buf = bytes, broken = True\<rparr> md5_new = Inl OSError"
    by (simp add: hash_chunks_faulty)
  moreover have "hexdigest lib (map (\<lambda>i. take 4096 (drop (i * 4096) bytes))
                       [0..<(length bytes + 4095) div 4096]) = md5_hexdigest lib bytes"
    by (simp only: hexdigest_def concat_chunks)
  ultimately show ?thesis
    using calculate_file_hash_cases [of lib fs file_path] by (simp only: simp_thms)
qed

section \<open>Facts about indicator extraction and the strings section\<close>

lemma distinct_count_list_le: "distinct xs \<Longrightarrow> count_list xs x \<le> 1"
  by (induction xs) auto

lemma scan_patterns_filter:
  "scan_patterns ps content acc =
     acc @ map (\<lambda>(pattern, indicator_type). indicator_type @ '': '' @ pattern)
             (filter (\<lambda>(pattern, indicator_type). sublist pattern (lower content)) ps)"
  by (induction ps content acc rule: scan_patterns.induct) auto

lemma subseq_take_map_filter: "subseq (take n (map f (filter P xs))) (map f xs)"
proof -
  have "subseq (take n (map f (filter P xs))) (map f (filter P xs))"
    by (rule prefix_imp_subseq) (rule take_is_prefix)
  moreover have "subseq (map f (filter P xs)) (map f xs)"
    by (rule subseq_map) simp
  ultimately show ?thesis by (rule subseq_order.trans)
qed

lemma distinct_take_map_filter:
  "distinct (map f xs) \<Longrightarrow> distinct (take n (map f (filter P xs)))"
  by (rule distinct_take) (simp add: distinct_map_filter)

lemma distinct_extract_patterns:
  "distinct (map (\<lambda>(pattern, indicator_type). indicator_type @ '': '' @ pattern) extract_patterns)"
  by (simp add: extract_patterns_def)

lemma distinct_processor_patterns:
  "distinct (map (\<lambda>(pattern, indicator_type). indicator_type @ '': '' @ pattern) processor_patterns)"
  by (simp add: processor_patterns_def)

lemma extract_indicators_filter:
  "extract_indicators_from_content content =
     take 5 (map (\<lambda>(pattern, indicator_type). indicator_type @ '': '' @ pattern)
               (filter (\<lambda>(pattern, indicator_type). sublist pattern (lower content))
                  extract_patterns))"
  by (simp add: extract_indicators_from_content_def scan_patterns_filter)

lemma find_potential_indicators_filter:
  "find_potential_indicators lib bytes =
     map (\<lambda>(pattern, indicator_type). indicator_type @ '': '' @ pattern)
       (filter (\<lambda>(pattern, indicator_type). sublist pattern (lower (utf8_decode lib bytes)))
          processor_patterns)"
  by (simp add: find_potential_indicators_def scan_patterns_filter)



text \<open>
  C1.  The literal of an indicator entry is what follows the last colon of the
  indicator, stripped.  The patterns \<open>http://\<close> and \<open>https://\<close> hold a colon
  themselves: for the file \<open>sample.txt\<close> with the content
  \<open>visit http://bad.com/x.exe now\<close> the entry \<open>$indicator_1\<close> has the literal \<open>//\<close>,
  not \<open>http://\<close>.
\<close>

theorem url_indicator_literal:
  "strings_list ''sample.txt'' fhash
     (extract_indicators_from_content ''visit http://bad.com/x.exe now'') =
     [''        $file_name = '' @ dq @ ''sample.txt'' @ dq @ '' wide ascii'',
      ''        $hash = '' @ dq @ fhash @ dq,
      ''        $indicator_1 = '' @ dq @ ''//'' @ dq @ '' nocase'',
      ''        $indicator_2 = '' @ dq @ ''.exe'' @ dq @ '' nocase'']"
  by (simp add: strings_list_def extract_indicators_from_content_def extract_patterns_def
      lower_def lower_char_def sublist_code(3) indicator_string_def strip_def py_isspace_def
      digit_char_def)


text \<open>
  C10.  Both scans, that of the rule generator and that of the file processor, return
  a subsequence of the entries \<open>Category: pattern\<close> of their pattern list, in the order
  of the list, without duplicates: an entry occurs at most once, however often its
  pattern occurs in the content.
\<close>

theorem extraction_once_per_pattern:
  "subseq (extract_indicators_from_content content)
      (map (\<lambda>(pattern, indicator_type). indicator_type @ '': '' @ pattern) extract_patterns)
   \<and> distinct (extract_indicators_from_content content)
   \<and> count_list (extract_indicators_from_content content) entry \<le> 1
   \<and> subseq (find_potential_indicators lib bytes)
      (map (\<lambda>(pattern, indicator_type). indicator_type @ '': '' @ pattern) processor_patterns)
   \<and> distinct (find_potential_indicators lib bytes)
   \<and> count_list (find_potential_indicators lib bytes) entry \<le> 1"
proof -
  have d1: "distinct (extract_indicators_from_content content)"
    unfolding extract_indicators_filter
    by (rule distinct_take_map_filter) (rule distinct_extract_patterns)
  have d2: "distinct (find_potential_indicators lib bytes)"
    unfolding find_potential_indicators_filter
    using distinct_processor_patterns by (simp add: distinct_map_filter)
  have s1: "subseq (extract_indicators_from_content content)
      (map (\<lambda>(pattern, indicator_type). indicator_type @ '': '' @ pattern) extract_patterns)"
    unfolding extract_indicators_filter by (rule subseq_take_map_filter)
  have s2: "subseq (find_potential_indicators lib bytes)
      (map (\<lambda>(pattern, indicator_type). indicator_type @ '': '' @ pattern) processor_patterns)"
    unfolding find_potential_indicators_filter by (rule subseq_map) simp
  show ?thesis
    using d1 d2 s1 s2 distinct_count_list_le [OF d1, of entry]
      distinct_count_list_le [OF d2, of entry]
    by simp
qed

section \<open>Facts about the generated rules\<close>












lemma generate_rules_raises:
  assumes "generate_sigma_rule self lib filename analysis
             (calculate_file_hash lib fs file_path) = Inl e"
  shows "generate_rules self lib filename analysis fs file_path now = Inl e"
  using assms
  by (simp add: generate_rules_def generate_rules_from_csv_def generate_rules_from_text_def
      generate_basic_rules_def Let_def split: sum.splits)

lemma generate_rules_csv:
  assumes "endswith filename ''.csv''"
    and "generate_sigma_rule self lib filename analysis
           (calculate_file_hash lib fs file_path) = Inr sigma_rule"
  shows "generate_rules self lib filename analysis fs file_path now =
     Inr \<lparr>yara = Some (generate_csv_yara_rule self filename
                          (calculate_file_hash lib fs file_path)),
          sigma = Some sigma_rule,
          rules_metadata = Some (generate_metadata self filename analysis
                                   (calculate_file_hash lib fs file_path) [] now)\<rparr>"
  using assms by (simp add: generate_rules_def generate_rules_from_csv_def Let_def)



lemma file_hash_generate_metadata [simp]:
  "file_hash (generate_metadata self filename analysis fhash indicators now) = fhash"
  by (simp add: generate_metadata_def)

lemma indicators_found_generate_metadata [simp]:
  "indicators_found (generate_metadata self filename analysis fhash indicators now) = indicators"
  by (simp add: generate_metadata_def)






lemma calculate_file_hash_decoder:
  "calculate_file_hash (lib\<lparr>utf8_decode := decode\<rparr>) fs file_path =
   calculate_file_hash lib fs file_path"
  by (simp add: calculate_file_hash_cases split: option.splits file_node.splits)

lemma generate_sigma_rule_decoder:
  "generate_sigma_rule self (lib\<lparr>utf8_decode := decode\<rparr>) filename analysis fhash =
   generate_sigma_rule self lib filename analysis fhash"
  by (simp add: generate_sigma_rule_def split: sum.splits)

lemma generate_rules_csv_cases:
  assumes "endswith filename ''.csv''"
  shows "generate_rules self lib filename analysis fs file_path now =
       (case generate_sigma_rule self lib filename analysis
               (calculate_file_hash lib fs file_path) of
          Inl e \<Rightarrow> Inl e
        | Inr sigma_rule \<Rightarrow>
            Inr \<lparr>yara = Some (generate_csv_yara_rule self filename
                                 (calculate_file_hash lib fs file_path)),
                 sigma = Some sigma_rule,
                 rules_metadata = Some (generate_metadata self filename analysis
                                          (calculate_file_hash lib fs file_path) [] now)\<rparr>)"
  using assms
  by (cases "generate_sigma_rule self lib filename analysis
               (calculate_file_hash lib fs file_path)")
    (simp_all add: generate_rules_raises generate_rules_csv)

text \<open>
  C6.  A file name that ends in \<open>.csv\<close> takes the CSV branch.  Where the Sigma rule
  raises, which is where the encoder rejects the file name, \<open>generate_rules\<close> raises
  that exception and renders nothing.  Otherwise the pattern rule is the CSV template,
  whose strings section is the file name entry and the hash entry with no indicator
  entry and whose \<open>file_type\<close> is the literal \<open>text/csv\<close>, and the metadata have an empty
  indicator list.  The content is never decoded: the result is the same for every
  decoder.
\<close>

theorem csv_branch:
  assumes "endswith filename ''.csv''"
  shows "generate_rules self lib filename analysis fs file_path now =
       (case generate_sigma_rule self lib filename analysis
               (calculate_file_hash lib fs file_path) of
          Inl e \<Rightarrow> Inl e
        | Inr sigma_rule \<Rightarrow>
            Inr \<lparr>yara = Some (generate_csv_yara_rule self filename
                                 (calculate_file_hash lib fs file_path)),
                 sigma = Some sigma_rule,
                 rules_metadata = Some (generate_metadata self filename analysis
                                          (calculate_file_hash lib fs file_path) [] now)\<rparr>)
     \<and> (generate_sigma_rule self lib filename analysis (calculate_file_hash lib fs file_path)
          = Inl e) = (utf8_encode lib filename = Inl e)
     \<and> generate_csv_yara_rule self filename fhash =
         text_of_lines
           ([''rule CSV_Rule_'' @ rule_name_suffix filename,
             ''{'',
             ''    meta:'',
             ''        author = '' @ dq @ author self @ dq,
             ''        date = '' @ dq @ created self @ dq,
             ''        description = '' @ dq @ ''Basic rule for CSV file: '' @ filename @ dq,
             ''        file_type = '' @ dq @ ''text/csv'' @ dq,
             [],
             ''    strings:'']
            @ strings_list filename fhash []
            @ [''        '',
               ''    condition:'',
               ''        any of them'',
               ''}''])
     \<and> strings_list filename fhash [] =
         [''        $file_name = '' @ dq @ filename @ dq @ '' wide ascii'',
          ''        $hash = '' @ dq @ fhash @ dq]
     \<and> indicators_found (generate_metadata self filename analysis
                            (calculate_file_hash lib fs file_path) [] now) = []
     \<and> generate_rules self (lib\<lparr>utf8_decode := decode\<rparr>) filename analysis fs file_path now =
         generate_rules self lib filename analysis fs file_path now"
proof -
  have a: "strings_list filename fhash [] =
         [''        $file_name = '' @ dq @ filename @ dq @ '' wide ascii'',
          ''        $hash = '' @ dq @ fhash @ dq]"
    by (simp add: strings_list_def)
  have b: "generate_csv_yara_rule self filename fhash =
         text_of_lines
           ([''rule CSV_Rule_'' @ rule_name_suffix filename,
             ''{'',
             ''    meta:'',
             ''        author = '' @ dq @ author self @ dq,
             ''        date = '' @ dq @ created self @ dq,
             ''        description = '' @ dq @ ''Basic rule for CSV file: '' @ filename @ dq,
             ''        file_type = '' @ dq @ ''text/csv'' @ dq,
             [],
             ''    strings:'']
            @ strings_list filename fhash []
            @ [''        '',
               ''    condition:'',
               ''        any of them'',
               ''}''])"
    unfolding a by (simp add: generate_csv_yara_rule_def Let_def)
  have c: "generate_rules self (lib\<lparr>utf8_decode := decode\<rparr>) filename analysis fs file_path now =
         generate_rules self lib filename analysis fs file_path now"
    by (simp only: generate_rules_csv_cases [OF assms] calculate_file_hash_decoder
        generate_sigma_rule_decoder)
  have d: "(generate_sigma_rule self lib filename analysis (calculate_file_hash lib fs file_path)
          = Inl e) = (utf8_encode lib filename = Inl e)"
    by (simp add: generate_sigma_rule_def split: sum.splits)
  show ?thesis
    using a b c d generate_rules_csv_cases [OF assms, of self lib analysis fs file_path now]
    by (simp only: indicators_found_generate_metadata simp_thms)
qed

theorem csv_branch_witness:
  "endswith ''data.csv'' ''.csv''
   \<and> (\<forall>md5 decode.
         map_sum id yara
           (generate_rules (init_generator ''2025-01-01T10:00:00'') (scenario_lib md5 decode)
              ''data.csv'' empty_analysis Map.empty ''new_input_files/data.csv''
              ''2025-01-01T10:00:01'') =
         Inr (Some (text_of_lines
           [''rule CSV_Rule_data_csv'',
            ''{'',
            ''    meta:'',
            ''        author = '' @ dq @ ''Fariba Mohammaditabar'' @ dq,
            ''        date = '' @ dq @ ''2025-01-01T10:00:00'' @ dq,
            ''        description = '' @ dq @ ''Basic rule for CSV file: data.csv'' @ dq,
            ''        file_type = '' @ dq @ ''text/csv'' @ dq,
            [],
            ''    strings:'',
            ''        $file_name = '' @ dq @ ''data.csv'' @ dq @ '' wide ascii'',
            ''        $hash = '' @ dq @ ''hash_calculation_failed'' @ dq,
            ''        '',
            ''    condition:'',
            ''        any of them'',
            ''}''])))
   \<and> (\<forall>md5 decode. indicators_found
          (generate_metadata (init_generator ''2025-01-01T10:00:00'') ''data.csv''
             empty_analysis
             (calculate_file_hash (scenario_lib md5 decode) Map.empty
                ''new_input_files/data.csv'') []
             ''2025-01-01T10:00:01'') = [])"
proof -
  let ?g = "init_generator ''2025-01-01T10:00:00''"
  have h: "endswith ''data.csv'' ''.csv''"
    by (simp add: endswith_def)
  have f: "calculate_file_hash lib Map.empty ''new_input_files/data.csv'' =
      ''hash_calculation_failed''" for lib
    by (simp add: calculate_file_hash_def open_file_def)
  have y: "map_sum id yara
           (generate_rules ?g (scenario_lib md5 decode)
              ''data.csv'' empty_analysis Map.empty ''new_input_files/data.csv''
              ''2025-01-01T10:00:01'') =
         Inr (Some (text_of_lines
           [''rule CSV_Rule_data_csv'',
            ''{'',
            ''    meta:'',
            ''        author = '' @ dq @ ''Fariba Mohammaditabar'' @ dq,
            ''        date = '' @ dq @ ''2025-01-01T10:00:00'' @ dq,
            ''        description = '' @ dq @ ''Basic rule for CSV file: data.csv'' @ dq,
            ''        file_type = '' @ dq @ ''text/csv'' @ dq,
            [],
            ''    strings:'',
            ''        $file_name = '' @ dq @ ''data.csv'' @ dq @ '' wide ascii'',
            ''        $hash = '' @ dq @ ''hash_calculation_failed'' @ dq,
            ''        '',
            ''    condition:'',
            ''        any of them'',
            ''}'']))" for md5 decode
  proof -
    obtain sigma_rule where s: "generate_sigma_rule ?g (scenario_lib md5 decode) ''data.csv''
        empty_analysis ''hash_calculation_failed'' = Inr sigma_rule"
      by (simp add: generate_sigma_rule_def scenario_lib_def)
    note t = csv_branch [OF h, of ?g "scenario_lib md5 decode" empty_analysis
        Map.empty "''new_input_files/data.csv''" "''2025-01-01T10:00:01''" UnicodeEncodeError
        "''hash_calculation_failed''" decode]
    have "generate_rules ?g (scenario_lib md5 decode)
              ''data.csv'' empty_analysis Map.empty ''new_input_files/data.csv''
              ''2025-01-01T10:00:01'' =
        Inr \<lparr>yara = Some (generate_csv_yara_rule ?g ''data.csv'' ''hash_calculation_failed''),
             sigma = Some sigma_rule,
             rules_metadata = Some (generate_metadata ?g ''data.csv'' empty_analysis
                                      ''hash_calculation_failed'' []
                                      ''2025-01-01T10:00:01'')\<rparr>"
      using t s by (simp add: f)
    moreover have "generate_csv_yara_rule ?g ''data.csv'' ''hash_calculation_failed'' =
        text_of_lines
           [''rule CSV_Rule_data_csv'',
            ''{'',
            ''    meta:'',
            ''        author = '' @ dq @ ''Fariba Mohammaditabar'' @ dq,
            ''        date = '' @ dq @ ''2025-01-01T10:00:00'' @ dq,
            ''        description = '' @ dq @ ''Basic rule for CSV file: data.csv'' @ dq,
            ''        file_type = '' @ dq @ ''text/csv'' @ dq,
            [],
            ''    strings:'',
            ''        $file_name = '' @ dq @ ''data.csv'' @ dq @ '' wide ascii'',
            ''        $hash = '' @ dq @ ''hash_calculation_failed'' @ dq,
            ''        '',
            ''    condition:'',
            ''        any of them'',
            ''}'']"
      using t by (simp add: init_generator_def rule_name_suffix_def replace_def)
    ultimately show ?thesis by simp
  qed
  show ?thesis
    using h y by simp
qed

lemma rule_name_suffix_idem: "rule_name_suffix (rule_name_suffix s) = rule_name_suffix s"
  by (simp add: rule_name_suffix_def replace_def)

lemma is_word_char_underscore: "is_word_char CHR ''_''"
  by (simp add: is_word_char_def)

lemma sub_nonword_runs_word_chars: "list_all is_word_char (sub_nonword_runs in_run s)"
  by (induction s arbitrary: in_run) (simp_all add: is_word_char_underscore)

lemma sub_nonword_runs_id: "list_all is_word_char s \<Longrightarrow> sub_nonword_runs in_run s = s"
  by (induction s arbitrary: in_run) simp_all

lemma re_sub_nonword_idem: "re_sub_nonword (re_sub_nonword s) = re_sub_nonword s"
  by (simp add: re_sub_nonword_def sub_nonword_runs_id sub_nonword_runs_word_chars)

text \<open>
  C2.  The rule generator replaces the dots and the spaces of the file name only: for
  the file \<open>my-file.txt\<close> the rule identifier is \<open>Rule_my-file_txt\<close>, which holds a
  hyphen, a character that is no word character.  The converter variant replaces every
  run of non-word characters and gives \<open>my_file_txt\<close> for the same name.
\<close>

theorem rule_name_keeps_hyphen:
  "rule_name_suffix ''my-file.txt'' = ''my-file_txt''
   \<and> prefix (''rule Rule_my-file_txt'' @ nl)
        (generate_yara_rule self ''my-file.txt'' analysis fhash indicators)
   \<and> \<not> is_word_char CHR ''-''
   \<and> re_sub_nonword ''my-file.txt'' = ''my_file_txt''"
  by (simp add: rule_name_suffix_def replace_def generate_yara_rule_def text_of_lines_def
      Let_def is_word_char_def re_sub_nonword_def)

section \<open>Facts about the orchestrator\<close>

lemma save_text_skip: "\<not> truthy v \<Longrightarrow> save_text msg p v w = Inr w"
  by (simp add: save_text_def truthy_def split: option.splits)

lemma save_text_ok:
  "truthy v \<Longrightarrow> \<not> write_denied w p \<Longrightarrow>
   save_text msg p v w =
     Inr (log_add (Info (msg @ p)) (w\<lparr>out_files := (out_files w)(p \<mapsto> Text (get v []))\<rparr>))"
  by (simp add: save_text_def truthy_def write_file_def get_def split: option.splits)

lemma save_text_denied:
  "truthy v \<Longrightarrow> write_denied w p \<Longrightarrow> save_text msg p v w = Inl PermissionError"
  by (simp add: save_text_def truthy_def write_file_def split: option.splits)

text \<open>
  C7, as stated, fails: with a dictionary of rules that has no key at all the metadata
  file is written all the same, holding the empty dictionary.
\<close>

theorem save_rules_counterexample:
  "fst (save_rules
          \<lparr>input_dir = ''new_input_files'', output_dir = ''output_rules'',
           rule_generator = init_generator ''2025-01-01T10:00:00''\<rparr>
          \<lparr>yara = None, sigma = None, rules_metadata = None\<rparr> ''sample'' empty_world) = Inr ()
   \<and> out_files (snd (save_rules
          \<lparr>input_dir = ''new_input_files'', output_dir = ''output_rules'',
           rule_generator = init_generator ''2025-01-01T10:00:00''\<rparr>
          \<lparr>yara = None, sigma = None, rules_metadata = None\<rparr> ''sample'' empty_world))
       ''output_rules/sample_metadata.json'' = Some (JsonDump None)"
  by (simp add: save_rules_def save_text_def write_file_def log_add_def out_path_def
      empty_world_def Let_def)

lemma save_rules_all_written:
  assumes "truthy (yara rs) \<longrightarrow> \<not> write_denied w (out_path self (base_name @ ''_rules.yar''))"
    and "truthy (sigma rs) \<longrightarrow> \<not> write_denied w (out_path self (base_name @ ''_sigma.yml''))"
    and "\<not> write_denied w (out_path self (base_name @ ''_metadata.json''))"
  shows "fst (save_rules self rs base_name w) = Inr ()
     \<and> out_files (snd (save_rules self rs base_name w)) =
         (\<lambda>p. if p = out_path self (base_name @ ''_metadata.json'')
              then Some (JsonDump (rules_metadata rs))
              else if p = out_path self (base_name @ ''_sigma.yml'') \<and> truthy (sigma rs)
              then Some (Text (get (sigma rs) []))
              else if p = out_path self (base_name @ ''_rules.yar'') \<and> truthy (yara rs)
              then Some (Text (get (yara rs) []))
              else out_files w p)"
proof -
  let ?yp = "out_path self (base_name @ ''_rules.yar'')"
  let ?sp = "out_path self (base_name @ ''_sigma.yml'')"
  let ?mp = "out_path self (base_name @ ''_metadata.json'')"
  obtain w1 where w1: "save_text ''YARA rules saved: '' ?yp (yara rs) w = Inr w1"
    "out_files w1 = (if truthy (yara rs) then (out_files w)(?yp \<mapsto> Text (get (yara rs) []))
                     else out_files w)"
    "write_denied w1 = write_denied w"
    using assms(1)
    by (cases "truthy (yara rs)") (simp_all add: save_text_ok save_text_skip log_add_def)
  obtain w2 where w2: "save_text ''Sigma rules saved: '' ?sp (sigma rs) w1 = Inr w2"
    "out_files w2 = (if truthy (sigma rs) then (out_files w1)(?sp \<mapsto> Text (get (sigma rs) []))
                     else out_files w1)"
    "write_denied w2 = write_denied w1"
    using assms(2) w1(3)
    by (cases "truthy (sigma rs)") (simp_all add: save_text_ok save_text_skip log_add_def)
  have w3: "write_file ?mp (JsonDump (rules_metadata rs)) w2 =
      Inr (w2\<lparr>out_files := (out_files w2)(?mp \<mapsto> JsonDump (rules_metadata rs))\<rparr>)"
    using assms(3) w1(3) w2(3) by (simp add: write_file_def)
  have r: "save_rules self rs base_name w =
      (Inr (), log_add (Info (''Metadata saved: '' @ ?mp))
         (w2\<lparr>out_files := (out_files w2)(?mp \<mapsto> JsonDump (rules_metadata rs))\<rparr>))"
    by (simp add: save_rules_def Let_def w1(1) w2(1) w3)
  show ?thesis
    unfolding r by (auto simp: log_add_def w1(2) w2(2) fun_eq_iff)
qed

text \<open>
  C7, amended.  Where every write that is attempted can be opened (the path of the
  pattern rule when the pattern rule is truthy, that is present and not empty, the
  path of the Sigma rule when the Sigma rule is truthy, and the path of the metadata),
  \<open>_save_rules\<close> returns normally; the pattern rule and the Sigma rule are written
  where their value is truthy and skipped otherwise; the metadata file is written
  whether the dictionary has metadata or not, with the metadata or with the empty
  dictionary; no other path changes.  Where the pattern rule is truthy and its path
  cannot be opened, \<open>_save_rules\<close> raises at once and the world is as before: no file
  is written, the metadata file included.
\<close>

theorem save_rules_writes:
  "((truthy (yara rs) \<longrightarrow> \<not> write_denied w (out_path self (base_name @ ''_rules.yar'')))
    \<and> (truthy (sigma rs) \<longrightarrow> \<not> write_denied w (out_path self (base_name @ ''_sigma.yml'')))
    \<and> \<not> write_denied w (out_path self (base_name @ ''_metadata.json''))
    \<longrightarrow> fst (save_rules self rs base_name w) = Inr ()
        \<and> out_files (snd (save_rules self rs base_name w)) =
            (\<lambda>p. if p = out_path self (base_name @ ''_metadata.json'')
                 then Some (JsonDump (rules_metadata rs))
                 else if p = out_path self (base_name @ ''_sigma.yml'') \<and> truthy (sigma rs)
                 then Some (Text (get (sigma rs) []))
                 else if p = out_path self (base_name @ ''_rules.yar'') \<and> truthy (yara rs)
                 then Some (Text (get (yara rs) []))
                 else out_files w p))
   \<and> (truthy (yara rs) \<and> write_denied w (out_path self (base_name @ ''_rules.yar''))
        \<longrightarrow> save_rules self rs base_name w = (Inl PermissionError, w))"
proof (rule conjI; rule impI)
  assume "(truthy (yara rs) \<longrightarrow> \<not> write_denied w (out_path self (base_name @ ''_rules.yar'')))
    \<and> (truthy (sigma rs) \<longrightarrow> \<not> write_denied w (out_path self (base_name @ ''_sigma.yml'')))
    \<and> \<not> write_denied w (out_path self (base_name @ ''_metadata.json''))"
  then show "fst (save_rules self rs base_name w) = Inr ()
        \<and> out_files (snd (save_rules self rs base_name w)) =
            (\<lambda>p. if p = out_path self (base_name @ ''_metadata.json'')
                 then Some (JsonDump (rules_metadata rs))
                 else if p = out_path self (base_name @ ''_sigma.yml'') \<and> truthy (sigma rs)
                 then Some (Text (get (sigma rs) []))
                 else if p = out_path self (base_name @ ''_rules.yar'') \<and> truthy (yara rs)
                 then Some (Text (get (yara rs) []))
                 else out_files w p)"
    by (intro save_rules_all_written) simp_all
next
  assume "truthy (yara rs) \<and> write_denied w (out_path self (base_name @ ''_rules.yar''))"
  then show "save_rules self rs base_name w = (Inl PermissionError, w)"
    by (simp add: save_rules_def Let_def save_text_denied)
qed

theorem save_rules_writes_witness:
  "truthy (Some ''rule sample'')
   \<and> \<not> write_denied empty_world ''output_rules/sample_rules.yar''
   \<and> \<not> truthy None
   \<and> \<not> write_denied empty_world ''output_rules/sample_metadata.json''
   \<and> fst (save_rules scenario_generator
          \<lparr>yara = Some ''rule sample'', sigma = None, rules_metadata = None\<rparr>
          ''sample'' empty_world) = Inr ()
   \<and> out_files (snd (save_rules scenario_generator
          \<lparr>yara = Some ''rule sample'', sigma = None, rules_metadata = None\<rparr>
          ''sample'' empty_world)) =
       [''output_rules/sample_rules.yar'' \<mapsto> Text ''rule sample'',
        ''output_rules/sample_metadata.json'' \<mapsto> JsonDump None]
   \<and> write_denied scenario_world ''output_rules/locked_rules.yar''
   \<and> save_rules scenario_generator
         \<lparr>yara = Some ''rule locked'', sigma = None, rules_metadata = None\<rparr>
         ''locked'' scenario_world = (Inl PermissionError, scenario_world)"
proof -
  let ?rs = "\<lparr>yara = Some ''rule sample'', sigma = None, rules_metadata = None\<rparr>"
  let ?rl = "\<lparr>yara = Some ''rule locked'', sigma = None, rules_metadata = None\<rparr>"
  have h: "(truthy (yara ?rs) \<longrightarrow>
        \<not> write_denied empty_world (out_path scenario_generator (''sample'' @ ''_rules.yar'')))
      \<and> (truthy (sigma ?rs) \<longrightarrow>
        \<not> write_denied empty_world (out_path scenario_generator (''sample'' @ ''_sigma.yml'')))
      \<and> \<not> write_denied empty_world
           (out_path scenario_generator (''sample'' @ ''_metadata.json''))"
    by (simp add: empty_world_def)
  have d: "truthy (yara ?rl)
      \<and> write_denied scenario_world (out_path scenario_generator (''locked'' @ ''_rules.yar''))"
    by (simp add: truthy_def scenario_world_def scenario_generator_def out_path_def)
  have a: "fst (save_rules scenario_generator ?rs ''sample'' empty_world) = Inr ()
      \<and> out_files (snd (save_rules scenario_generator ?rs ''sample'' empty_world)) =
       [''output_rules/sample_rules.yar'' \<mapsto> Text ''rule sample'',
        ''output_rules/sample_metadata.json'' \<mapsto> JsonDump None]"
    using save_rules_writes [of ?rs empty_world scenario_generator "''sample''"] h
    by (auto simp: truthy_def get_def out_path_def scenario_generator_def empty_world_def
        fun_eq_iff)
  have b: "save_rules scenario_generator ?rl ''locked'' scenario_world =
      (Inl PermissionError, scenario_world)"
    using save_rules_writes [of ?rl scenario_world scenario_generator "''locked''"] d
    by blast
  show ?thesis
    using a b
    by (simp add: truthy_def empty_world_def scenario_world_def)
qed


























end
